theory Spec2Isabelle
  imports Main "HOL-Library.Word" "HOL-Library.AList"
begin

section \<open>The i-Telex server device (txDevITelexSrv.py)\<close>

text \<open>
  A shallow embedding of class \<open>TelexITelexSrv\<close>: the object's attributes are a record,
  every method and every loop body is a function that takes the object and returns the
  updated one, together with the list of effects on the outside world (sockets, threads,
  calls into the base class \<open>TelexITelexCommon\<close>, whose code is not part of the sources).
  Exceptions are values of \<open>py_error\<close>; what the network delivers is an argument.
\<close>

subsection \<open>Bytes, Python errors, strings\<close>

type_synonym byte = "8 word"

datatype py_error =
  TypeError | ValueError | OverflowError | IndexError | AttributeError | KeyError
  | OSError | GenericException

text \<open>Module constant \<open>selftest_packet\<close> (line 21).\<close>

definition selftest_packet :: "byte list" where
  "selftest_packet = [0x08, 0x04, 0xDE, 0xCA, 0xFB, 0xAD]"

text \<open>
  \<open>int.to_bytes(length, byteorder="little")\<close>, unsigned: OverflowError for a negative
  integer and for one that does not fit into \<open>length\<close> bytes.
\<close>

fun le_bytes :: "nat \<Rightarrow> int \<Rightarrow> byte list" where
  "le_bytes 0 n = []"
| "le_bytes (Suc k) n = word_of_int (n mod 256) # le_bytes k (n div 256)"

definition to_bytes :: "int option \<Rightarrow> nat \<Rightarrow> py_error + byte list" where
  "to_bytes v len =
     (case v of
        None \<Rightarrow> Inl AttributeError
      | Some n \<Rightarrow> if n < 0 \<or> 256 ^ len \<le> n then Inl OverflowError else Inr (le_bytes len n))"

text \<open>The value of a little-endian byte sequence, to say what a field of a packet holds.\<close>

fun le_value :: "byte list \<Rightarrow> int" where
  "le_value [] = 0"
| "le_value (b # bs) = uint b + 256 * le_value bs"

text \<open>\<open>str(i)\<close> for a non-negative integer, and \<open>".".join(parts)\<close>.\<close>

definition digit_char :: "nat \<Rightarrow> char" where
  "digit_char d = char_of (48 + d)"

fun str_nat :: "nat \<Rightarrow> string" where
  "str_nat n = (if n < 10 then [digit_char n] else str_nat (n div 10) @ [digit_char (n mod 10)])"

declare str_nat.simps [simp del]

fun join_dot :: "string list \<Rightarrow> string" where
  "join_dot [] = []"
| "join_dot [p] = p"
| "join_dot (p # q # ps) = p @ ''.'' @ join_dot (q # ps)"

text \<open>Indexing \<open>data[i]\<close> of a bytes object: IndexError out of range.\<close>

definition byte_at :: "byte list \<Rightarrow> nat \<Rightarrow> py_error + byte" where
  "byte_at data i = (if i < length data then Inr (data ! i) else Inl IndexError)"

subsection \<open>The object\<close>

type_synonym sock = nat
type_synonym address = "string \<times> int"

text \<open>
  Where the thread \<open>iTelexTNSupd\<close> stands: not started, at the head of the
  \<open>while self.run\<close> loop (line 178), at the head of iteration \<open>i\<close> of
  \<open>for _ in range(180)\<close> (line 199), or returned.
\<close>

datatype tns_pc = NotStarted | TnsUpdate | SelfTest nat | Returned

text \<open>
  Where the thread \<open>iTelexSaic\<close> stands: in its loop (lines 105 to 122), inside a
  \<open>client.recv(128)\<close> that does not return (line 109; the socket has no timeout), or
  ended by an exception that nothing in the loop catches.
\<close>

datatype acceptor_pc = Accepting | InRecv | Ended

text \<open>
  The attributes. \<open>number\<close>, \<open>tns_pin\<close>, \<open>port\<close>, \<open>tx_buffer\<close> and \<open>rx_buffer\<close> are
  \<open>self._number\<close>, \<open>self._tns_pin\<close>, \<open>self._port\<close>, \<open>self._tx_buffer\<close> and
  \<open>self._rx_buffer\<close>. \<open>run\<close> is \<open>self.run\<close> and \<open>underscore_run\<close> is the distinct
  attribute \<open>self._run\<close>. \<open>server_open\<close> says whether the listening socket
  \<open>self.SERVER\<close> is open; \<open>selftest_event\<close> is the flag of the threading event;
  \<open>clients\<close> is the dict from client sockets to peer addresses, in insertion order.
  \<open>acceptor\<close> and \<open>pc\<close> are the places of the acceptor thread and of the TNS thread.
  \<open>end_signalled\<close> belongs to the base class (see \<open>disconnect_client\<close> below).
  \<open>self.id\<close>, \<open>self.params\<close> and \<open>self._tns_port\<close> are constants that nothing reads
  here, and are left out. Logging is left out.
\<close>

record srv =
  number :: "int option"
  tns_pin :: "int option"
  port :: int
  run :: bool
  underscore_run :: bool
  clients :: "(sock \<times> address) list"
  server_open :: bool
  tx_buffer :: "string list"
  rx_buffer :: "string list"
  update_tns_fail :: int
  test_connection_fail :: int
  ip_address :: "string option"
  selftest_event :: bool
  end_signalled :: bool
  acceptor :: acceptor_pc
  pc :: tns_pc

text \<open>What a step does to the outside world, in the order in which it does it.\<close>

datatype effect =
  Listen int
  | StartThread string
  | StartHandler sock
  | SetSelftestEvent
  | SendReject sock
  | Close sock
  | CloseServer
  | DisconnectClient
  | Register bool
  | Probe bool
  | Sleep nat
  | Raised py_error

subsection \<open>\<open>update_tns_record\<close> (lines 260 to 306)\<close>

text \<open>The \<open>client_update\<close> packet built in lines 278 to 287.\<close>

definition client_update_packet :: "srv \<Rightarrow> py_error + byte list" where
  "client_update_packet s =
     (case to_bytes (number s) 4 of
        Inl e \<Rightarrow> Inl e
      | Inr num \<Rightarrow>
          (case to_bytes (tns_pin s) 2 of
             Inl e \<Rightarrow> Inl e
           | Inr pin \<Rightarrow>
               (case to_bytes (Some (port s)) 2 of
                  Inl e \<Rightarrow> Inl e
                | Inr prt \<Rightarrow> Inr ([0x01, 0x08] @ num @ pin @ prt))))"

text \<open>
  Lines 291 to 302, on the bytes \<open>data\<close> that \<open>s.recv(1024)\<close> returned: the dotted
  address of an \<open>Address_confirm\<close>, or the exception raised.
\<close>

definition address_confirm :: "byte list \<Rightarrow> py_error + string" where
  "address_confirm data =
     (case byte_at data 0 of
        Inl e \<Rightarrow> Inl e
      | Inr b0 \<Rightarrow>
          if b0 = 0x02 then
            (case byte_at data 1 of
               Inl e \<Rightarrow> Inl e
             | Inr b1 \<Rightarrow>
                 if \<not> b1 = 0x4 then Inl ValueError
                 else Inr (join_dot (map (\<lambda>i. str_nat (unat i)) (take 4 (drop 2 data)))))
          else
            (case byte_at data 1 of
               Inl e \<Rightarrow> Inl e
             | Inr len \<Rightarrow> Inl GenericException))"

text \<open>
  The body of the \<open>try\<close>. \<open>reply\<close> is what the exchange with the TNS server gives:
  the bytes received, or the exception that \<open>connect\<close>, \<open>sendall\<close> or \<open>recv\<close> raised
  (refused connection, timeout after 3 s).
\<close>

definition update_tns_record_try :: "py_error + byte list \<Rightarrow> srv \<Rightarrow> py_error + srv" where
  "update_tns_record_try reply s =
     (case client_update_packet s of
        Inl e \<Rightarrow> Inl e
      | Inr qry \<Rightarrow>
          (case reply of
             Inl e \<Rightarrow> Inl e
           | Inr data \<Rightarrow>
               (case address_confirm data of
                  Inl e \<Rightarrow> Inl e
                | Inr ip \<Rightarrow> Inr (s\<lparr>ip_address := Some ip\<rparr>))))"

text \<open>\<open>except Exception\<close> (lines 304 to 306) turns every exception into \<open>False\<close>.\<close>

definition update_tns_record :: "py_error + byte list \<Rightarrow> srv \<Rightarrow> bool \<times> srv" where
  "update_tns_record reply s =
     (case update_tns_record_try reply s of
        Inl e \<Rightarrow> (False, s)
      | Inr s' \<Rightarrow> (True, s'))"

subsection \<open>Python truth values and string containment\<close>

text \<open>\<open>if x:\<close> for an optional integer, an optional string and a dict.\<close>

definition truthy_int :: "int option \<Rightarrow> bool" where
  "truthy_int v = (case v of None \<Rightarrow> False | Some n \<Rightarrow> n \<noteq> 0)"

definition truthy_str :: "string option \<Rightarrow> bool" where
  "truthy_str v = (case v of None \<Rightarrow> False | Some t \<Rightarrow> t \<noteq> [])"

text \<open>\<open>sub in t\<close> on strings: \<open>sub\<close> occurs in \<open>t\<close> as a contiguous substring.\<close>

fun str_in :: "string \<Rightarrow> string \<Rightarrow> bool" where
  "str_in sub [] = (sub = [])"
| "str_in sub (c # cs) = (take (length sub) (c # cs) = sub \<or> str_in sub cs)"

text \<open>The two-character strings \<open>'\x1bA'\<close> and \<open>'\x1bZ'\<close>.\<close>

definition esc_A :: string where
  "esc_A = [CHR 0x1B, CHR ''A'']"

definition esc_Z :: string where
  "esc_Z = [CHR 0x1B, CHR ''Z'']"

subsection \<open>The base class \<open>TelexITelexCommon\<close>\<close>

text \<open>
  Modelled from the spec: \<open>disconnect_client\<close> of the base class, whose code is not part
  of the sources. Section 6 of the spec says that the two-character control sequence
  "signals end-of-session and tears down the active call", and section 4.2 that the
  session handler relays the call "until the socket closes or an end-of-session control
  symbol is produced on the write side". The signal from the writing side to the handler
  is the flag \<open>end_signalled\<close>.
\<close>

definition disconnect_client :: "srv \<Rightarrow> effect list \<times> srv" where
  "disconnect_client s = ([DisconnectClient], s\<lparr>end_signalled := True\<rparr>)"

text \<open>
  Modelled from the spec: \<open>process_connection\<close> of the base class, whose code is not part
  of the sources. Section 4.2 of the spec: the handler "relays the call (byte decoding is
  delegated externally) until the socket closes or an end-of-session control symbol is
  produced on the write side"; "any unexpected failure during relay" is an exception. A
  relay starts with no end signalled. When the handler thread is looked at, the relay
  meets \<open>Relaying\<close> (the socket is open), \<open>SocketClosed\<close> or \<open>RelayFailed\<close>; it has
  returned (\<open>Inr True\<close>), goes on (\<open>Inr False\<close>) or has raised.
\<close>

datatype relay = Relaying | SocketClosed | RelayFailed

definition relay_start :: "srv \<Rightarrow> srv" where
  "relay_start s = s\<lparr>end_signalled := False\<rparr>"

definition process_connection :: "relay \<Rightarrow> srv \<Rightarrow> py_error + bool" where
  "process_connection r s =
     (case r of
        RelayFailed \<Rightarrow> Inl GenericException
      | SocketClosed \<Rightarrow> Inr True
      | Relaying \<Rightarrow> Inr (end_signalled s))"

subsection \<open>\<open>__init__\<close> (lines 29 to 75) and \<open>exit\<close> (lines 77 to 80)\<close>

text \<open>
  The keyword arguments that \<open>__init__\<close> reads with \<open>params.get\<close>; \<open>None\<close> is an absent
  key. \<open>number_param\<close> is the value after \<open>int(...)\<close>.
\<close>

record params =
  number_param :: "int option"
  tns_pin_param :: "int option"
  port_param :: "int option"

text \<open>
  \<open>base\<close> is the object as \<open>super().__init__()\<close> leaves it (it holds the attributes that
  the base class sets: the two buffers, \<open>_run\<close> and the end signal). Line 45 compares
  the pin with \<open>0\<close>; for the default \<open>None\<close> this comparison raises TypeError, before
  the listening socket exists. \<open>bind\<close> (line 56) raises OverflowError for a port outside
  0..65535, before anything listens; a port in this range is taken to be free.
\<close>

definition init :: "params \<Rightarrow> srv \<Rightarrow> py_error + effect list \<times> srv" where
  "init p base =
     (let port0 = (case port_param p of None \<Rightarrow> 2342 | Some v \<Rightarrow> v);
          n0 = (case number_param p of None \<Rightarrow> 0 | Some v \<Rightarrow> v);
          number1 = (if n0 \<le> 0 \<or> n0 > 0xffffffff then None else Some n0)
      in case tns_pin_param p of
           None \<Rightarrow> Inl TypeError
         | Some pin0 \<Rightarrow>
             (let invalid = (pin0 < 0 \<or> pin0 > 0xffff);
                  number2 = (if invalid then None else number1);
                  pin2 = (if invalid then None else Some pin0);
                  tns = truthy_int number2
              in if port0 < 0 \<or> 65535 < port0 then Inl OverflowError
                 else Inr ([Listen port0, StartThread ''iTelexSaic'']
                        @ (if tns then [StartThread ''iTelexTNSupd''] else []),
                      base\<lparr>number := number2, tns_pin := pin2, port := port0,
                           run := True, clients := [], server_open := True,
                           update_tns_fail := 0, test_connection_fail := 0,
                           ip_address := None, selftest_event := False,
                           acceptor := Accepting,
                           pc := (if tns then TnsUpdate else NotStarted)\<rparr>)))"

text \<open>
  \<open>exit\<close> calls \<open>disconnect_client\<close>, assigns \<open>self._run\<close> and closes the listening
  socket. It does not assign \<open>self.run\<close>.
\<close>

definition exit :: "srv \<Rightarrow> effect list \<times> srv" where
  "exit s =
     (let (effs, s1) = disconnect_client s
      in (effs @ [CloseServer], s1\<lparr>underscore_run := False, server_open := False\<rparr>))"

subsection \<open>\<open>write\<close> (lines 90 to 99)\<close>

text \<open>
  \<open>a\<close> and \<open>source\<close> are Python strings, one \<open>char\<close> for each character. The buffer
  holds the strings appended to it. (\<open>write\<close> is a command of Isabelle: the method is
  \<open>write_srv\<close> here.)
\<close>

definition write_srv :: "string \<Rightarrow> string \<Rightarrow> srv \<Rightarrow> effect list \<times> srv" where
  "write_srv a source s =
     (if length a \<noteq> 1 then
        (if a = esc_Z then disconnect_client s else ([], s))
      else if str_in source ''<>'' then ([], s)
      else ([], s\<lparr>tx_buffer := tx_buffer s @ [a]\<rparr>))"

subsection \<open>The acceptor thread (lines 103 to 122) and the client handler (lines 125 to 138)\<close>

text \<open>
  A connection as \<open>self.SERVER.accept()\<close> returns it: the client socket, the peer's
  address and port, and what a \<open>recv\<close> on the socket meets: bytes to read (none when
  the peer has closed), an exception (the peer has reset the connection), or a peer that
  stays silent, so that \<open>recv\<close> does not return.
\<close>

datatype recv_outcome = Data "byte list" | RecvError py_error | Silent

record conn =
  sock_id :: sock
  peer :: address
  pending :: recv_outcome

text \<open>\<open>client.recv(n)\<close>: \<open>None\<close> when it does not return.\<close>

definition recv :: "nat \<Rightarrow> conn \<Rightarrow> (py_error + byte list) option" where
  "recv n c =
     (case pending c of
        Data bs \<Rightarrow> Some (Inr (take n bs))
      | RecvError e \<Rightarrow> Some (Inl e)
      | Silent \<Rightarrow> None)"

text \<open>
  One pass through the body of \<open>while self.run\<close>, for the accepted connection \<open>c\<close>.
  Nothing in the loop catches an exception of \<open>recv\<close>: it ends the thread, with the
  client socket left open.
\<close>

definition accept_connection :: "conn \<Rightarrow> srv \<Rightarrow> effect list \<times> srv" where
  "accept_connection c s =
     (if Some (fst (peer c)) = ip_address s then
        (case recv 128 c of
           None \<Rightarrow> ([], s\<lparr>acceptor := InRecv\<rparr>)
         | Some (Inl e) \<Rightarrow> ([Raised e], s\<lparr>acceptor := Ended\<rparr>)
         | Some (Inr data) \<Rightarrow>
             if data = selftest_packet
             then ([SetSelftestEvent, Close (sock_id c)], s\<lparr>selftest_event := True\<rparr>)
             else ([Close (sock_id c)], s))
      else if clients s \<noteq> [] then ([SendReject (sock_id c), Close (sock_id c)], s)
      else ([StartHandler (sock_id c)],
            s\<lparr>clients := AList.update (sock_id c) (peer c) (clients s), tx_buffer := []\<rparr>))"

text \<open>\<open>self.SERVER.accept()\<close> raises (line 106), as it does on a closed socket.\<close>

definition accept_raises :: "srv \<Rightarrow> effect list \<times> srv" where
  "accept_raises s = ([Raised OSError], s\<lparr>acceptor := Ended\<rparr>)"

text \<open>
  \<open>thread_srv_handle_client\<close>. \<open>handler_enter\<close> is line 128 and the start of the relay.
  \<open>handler_leave\<close> is lines 136 to 138; \<open>del self.clients[s]\<close> raises KeyError for a
  socket that is not registered. \<open>handler_relay\<close> is the thread looked at while it is in
  \<open>process_connection\<close> (lines 130 to 134): the relay goes on, or it has returned, or it
  has raised and the handler calls \<open>disconnect_client\<close>; in both last cases the thread
  leaves.
\<close>

definition handler_enter :: "sock \<Rightarrow> srv \<Rightarrow> effect list \<times> srv" where
  "handler_enter k s = ([], relay_start (s\<lparr>rx_buffer := rx_buffer s @ [esc_A]\<rparr>))"

definition handler_leave :: "sock \<Rightarrow> srv \<Rightarrow> effect list \<times> srv" where
  "handler_leave k s =
     ([Close k] @ (if k \<in> fst ` set (clients s) then [] else [Raised KeyError]),
      s\<lparr>rx_buffer := rx_buffer s @ [esc_Z], clients := AList.delete k (clients s)\<rparr>)"

definition handler_relay :: "sock \<Rightarrow> relay \<Rightarrow> srv \<Rightarrow> effect list \<times> srv" where
  "handler_relay k r s =
     (case process_connection r s of
        Inl e \<Rightarrow>
          (let (effs1, s1) = disconnect_client s; (effs2, s2) = handler_leave k s1
           in (effs1 @ effs2, s2))
      | Inr returned \<Rightarrow> if returned then handler_leave k s else ([], s))"

subsection \<open>\<open>test_connection\<close> (lines 230 to 258)\<close>

text \<open>
  What the self-test meets: \<open>connect\<close> raises; or \<open>sendall\<close> raises, after the event has
  been cleared in line 248; or the packet is sent and \<open>selftest_event.wait(timeout = 1.0)\<close>
  returns \<open>ret\<close>.
\<close>

datatype probe_result = ConnectError | SendError | Waited bool

definition test_connection :: "probe_result \<Rightarrow> srv \<Rightarrow> bool \<times> srv" where
  "test_connection r s =
     (case r of
        ConnectError \<Rightarrow> (False, s)
      | SendError \<Rightarrow> (False, s\<lparr>selftest_event := False\<rparr>)
      | Waited ret \<Rightarrow> (ret, s\<lparr>selftest_event := False\<rparr>))"

subsection \<open>\<open>thread_handle_tns_update\<close> (lines 140 to 228)\<close>

text \<open>What the network gives to one step of the thread.\<close>

record net =
  tns_reply :: "py_error + byte list"
  probe :: probe_result

text \<open>
  From the head of \<open>while self.run\<close> to the \<open>for\<close> loop (lines 178 to 197): the update,
  the two counters, and the hour of sleep while the own address is unknown.
\<close>

definition tns_update_phase :: "py_error + byte list \<Rightarrow> srv \<Rightarrow> effect list \<times> srv" where
  "tns_update_phase reply s =
     (if \<not> run s then ([], s\<lparr>pc := Returned\<rparr>)
      else
        (let (ok, s1) = update_tns_record reply s;
             s2 = (if ok then
                     s1\<lparr>update_tns_fail := 0,
                        test_connection_fail :=
                          (if test_connection_fail s1 = 666 then 0 else test_connection_fail s1)\<rparr>
                   else s1\<lparr>update_tns_fail := update_tns_fail s1 + 1\<rparr>)
         in if \<not> truthy_str (ip_address s2) then ([Register ok, Sleep 3600], s2)
            else ([Register ok], s2\<lparr>pc := SelfTest 0\<rparr>)))"

text \<open>Where the thread goes after iteration \<open>i\<close> of \<open>range(180)\<close> when it does not break.\<close>

definition next_iteration :: "nat \<Rightarrow> tns_pc" where
  "next_iteration i = (if i + 1 < 180 then SelfTest (i + 1) else TnsUpdate)"

text \<open>Iteration \<open>i\<close> of the \<open>for\<close> loop (lines 199 to 228).\<close>

definition selftest_iteration :: "probe_result \<Rightarrow> nat \<Rightarrow> srv \<Rightarrow> effect list \<times> srv" where
  "selftest_iteration r i s =
     (if test_connection_fail s \<ge> 12 then
        ([Sleep 20], s\<lparr>test_connection_fail := 666, pc := next_iteration i\<rparr>)
      else
        (let (ok, s1) = test_connection r s;
             s2 = (if ok then s1\<lparr>test_connection_fail := 0\<rparr>
                   else s1\<lparr>test_connection_fail := test_connection_fail s1 + 1\<rparr>)
         in ([Sleep 20, Probe ok],
             s2\<lparr>pc := (if test_connection_fail s2 = 6 then TnsUpdate else next_iteration i)\<rparr>)))"

definition thread_handle_tns_update :: "net \<Rightarrow> srv \<Rightarrow> effect list \<times> srv" where
  "thread_handle_tns_update n s =
     (case pc s of
        NotStarted \<Rightarrow> ([], s)
      | Returned \<Rightarrow> ([], s)
      | TnsUpdate \<Rightarrow> tns_update_phase (tns_reply n) s
      | SelfTest i \<Rightarrow> selftest_iteration (probe n) i s)"

subsection \<open>The threads together\<close>

text \<open>
  The object is shared by the acceptor thread, the handler thread, the TNS thread and the
  callers of \<open>write\<close> and \<open>exit\<close>. An execution is a sequence of events, each one step of
  one of them. The acceptor thread, while it is in its loop and the loop condition
  \<open>self.run\<close> holds, takes a connection or meets an exception of \<open>accept\<close>.
\<close>

datatype event =
  Accept conn
  | AcceptRaises
  | HandlerEnter sock
  | Handler sock relay
  | Write string string
  | Exit
  | Tick net

fun step :: "event \<Rightarrow> srv \<Rightarrow> effect list \<times> srv" where
  "step (Accept c) s =
     (if acceptor s = Accepting \<and> run s then accept_connection c s else ([], s))"
| "step AcceptRaises s =
     (if acceptor s = Accepting \<and> run s then accept_raises s else ([], s))"
| "step (HandlerEnter k) s = handler_enter k s"
| "step (Handler k r) s = handler_relay k r s"
| "step (Write a source) s = write_srv a source s"
| "step Exit s = exit s"
| "step (Tick n) s = thread_handle_tns_update n s"

fun exec :: "event list \<Rightarrow> srv \<Rightarrow> effect list \<times> srv" where
  "exec [] s = ([], s)"
| "exec (ev # evs) s =
     (let (effs1, s1) = step ev s; (effs2, s2) = exec evs s1 in (effs1 @ effs2, s2))"

subsection \<open>A constructed object\<close>

text \<open>
  \<open>base0\<close> is an object as the base class may leave it, \<open>demo_params\<close> the keyword arguments
  \<open>number=12345678\<close>, \<open>tns-pin=4321\<close> with the default port, \<open>no_params\<close> the call without
  keyword arguments, and \<open>srv0\<close> the object that \<open>__init__\<close> makes of \<open>base0\<close> and
  \<open>demo_params\<close>. The other objects are \<open>srv0\<close> later in its life: \<open>srv_known\<close> knows its
  address, \<open>five_srv\<close> and \<open>twelve_srv\<close> have counted five and twelve failed self-tests, and
  \<open>suspended_srv\<close> has stopped testing and stands before the next TNS update.
\<close>

definition base0 :: srv where
  "base0 = \<lparr>number = None, tns_pin = None, port = 0, run = False, underscore_run = True,
            clients = [], server_open = False, tx_buffer = [], rx_buffer = [],
            update_tns_fail = 0, test_connection_fail = 0, ip_address = None,
            selftest_event = False, end_signalled = False, acceptor = Accepting,
            pc = NotStarted\<rparr>"

definition demo_params :: params where
  "demo_params = \<lparr>number_param = Some 12345678, tns_pin_param = Some 4321, port_param = None\<rparr>"

definition no_params :: params where
  "no_params = \<lparr>number_param = None, tns_pin_param = None, port_param = None\<rparr>"

definition srv0 :: srv where
  "srv0 = \<lparr>number = Some 12345678, tns_pin = Some 4321, port = 2342, run = True,
           underscore_run = True, clients = [], server_open = True, tx_buffer = [],
           rx_buffer = [], update_tns_fail = 0, test_connection_fail = 0, ip_address = None,
           selftest_event = False, end_signalled = False, acceptor = Accepting,
           pc = TnsUpdate\<rparr>"

definition srv_known :: srv where
  "srv_known = srv0\<lparr>ip_address := Some ''1.2.3.4'', pc := SelfTest 0\<rparr>"

definition five_srv :: srv where
  "five_srv = srv0\<lparr>ip_address := Some ''1.2.3.4'', test_connection_fail := 5, pc := SelfTest 5\<rparr>"



text \<open>\<open>busy_srv\<close> knows its address and has the caller \<open>call1\<close> registered.\<close>

definition busy_srv :: srv where
  "busy_srv = srv0\<lparr>clients := [(1, (''10.0.0.1'', 40000))],
                   ip_address := Some ''1.2.3.4'', pc := SelfTest 0\<rparr>"

text \<open>
  Connections: the self-test packet from the own address, other bytes from the own
  address, a connection from the own address that the peer resets before \<open>recv\<close>, and
  two callers.
\<close>

definition probe_conn :: conn where
  "probe_conn = \<lparr>sock_id = 7, peer = (''1.2.3.4'', 50000),
                  pending = Data [0x08, 0x04, 0xDE, 0xCA, 0xFB, 0xAD]\<rparr>"

definition stray_conn :: conn where
  "stray_conn = \<lparr>sock_id = 8, peer = (''1.2.3.4'', 50001),
                  pending = Data [0x07, 0x01, 0x01]\<rparr>"

definition reset_conn :: conn where
  "reset_conn = \<lparr>sock_id = 9, peer = (''1.2.3.4'', 50002), pending = RecvError OSError\<rparr>"

definition call1 :: conn where
  "call1 = \<lparr>sock_id = 1, peer = (''10.0.0.1'', 40000), pending = Data []\<rparr>"

definition call2 :: conn where
  "call2 = \<lparr>sock_id = 2, peer = (''10.0.0.2'', 40001), pending = Data []\<rparr>"

text \<open>
  A network on which the TNS server answers with the address 1.2.3.4 and the self-test is
  never confirmed.
\<close>

definition unconfirmed_net :: net where
  "unconfirmed_net =
     \<lparr>tns_reply = Inr [0x02, 0x04, 0x01, 0x02, 0x03, 0x04], probe = Waited False\<rparr>"


subsection \<open>The invariant of the TNS thread\<close>

text \<open>
  \<open>self.run\<close> is set, and the failure counter is bound to the place of the thread: at the
  head of the outer loop it is at most 6 or the marker 666; inside the \<open>for\<close> loop it is
  at most 5, or the marker, or it has been counted up from 6 since iteration 0.
\<close>

definition sched_inv :: "srv \<Rightarrow> bool" where
  "sched_inv s =
     (run s \<and>
      (case pc s of
         TnsUpdate \<Rightarrow> test_connection_fail s \<le> 6 \<or> test_connection_fail s = 666
       | SelfTest i \<Rightarrow>
           test_connection_fail s \<le> 5 \<or> test_connection_fail s = 666
           \<or> (test_connection_fail s = 6 + int i \<and> test_connection_fail s \<le> 12)
       | NotStarted \<Rightarrow> True
       | Returned \<Rightarrow> True))"

section \<open>Properties\<close>

subsection \<open>The registration packet\<close>

lemma init_demo:
  "init demo_params base0 =
     Inr ([Listen 2342, StartThread ''iTelexSaic'', StartThread ''iTelexTNSupd''], srv0)"
  by (simp add: init_def demo_params_def base0_def srv0_def truthy_int_def)

lemma length_le_bytes: "length (le_bytes k n) = k"
  by (induction k arbitrary: n) auto

lemma le_value_le_bytes: "0 \<le> n \<Longrightarrow> n < 256 ^ k \<Longrightarrow> le_value (le_bytes k n) = n"
proof (induction k arbitrary: n)
  case 0
  then show ?case by simp
next
  case (Suc k)
  have "n div 256 < 256 ^ k"
    using Suc.prems by (simp add: div_less_iff_less_mult mult.commute)
  moreover have "0 \<le> n div 256"
    using Suc.prems by simp
  ultimately have "le_value (le_bytes k (n div 256)) = n div 256"
    by (rule Suc.IH [rotated])
  then show ?case
    by (simp add: uint_word_of_int)
qed

lemma client_update_packet_Inr:
  assumes "number s = Some n" "0 \<le> n" "n < 2 ^ 32" "tns_pin s = Some p" "0 \<le> p" "p < 2 ^ 16"
    "0 \<le> port s" "port s < 2 ^ 16"
  shows "client_update_packet s =
           Inr ([0x01, 0x08] @ le_bytes 4 n @ le_bytes 2 p @ le_bytes 2 (port s))"
  using assms by (simp add: client_update_packet_def to_bytes_def)

text \<open>
  C5. For number 12345678, pin 4321 and port 2342 the request built by
  \<open>update_tns_record\<close> is the ten bytes 01 08 4E 61 BC 00 E1 10 26 09. In general, for a
  number that fits into 32 bits and a pin and a port that fit into 16 bits, the request
  has ten bytes: 01, 08, then four bytes whose little-endian value is the number, two
  whose little-endian value is the pin and two whose little-endian value is the port.
\<close>

theorem client_update_packet_format:
  "(number s = Some 12345678 \<and> tns_pin s = Some 4321 \<and> port s = 2342 \<longrightarrow>
      client_update_packet s = Inr [0x01, 0x08, 0x4E, 0x61, 0xBC, 0x00, 0xE1, 0x10, 0x26, 0x09])
   \<and> (\<forall>n p. number s = Some n \<and> 0 \<le> n \<and> n < 2 ^ 32 \<and> tns_pin s = Some p \<and> 0 \<le> p \<and> p < 2 ^ 16
          \<and> 0 \<le> port s \<and> port s < 2 ^ 16 \<longrightarrow>
        (\<exists>q. client_update_packet s = Inr q \<and> length q = 10 \<and> q ! 0 = 0x01 \<and> q ! 1 = 0x08
           \<and> le_value (take 4 (drop 2 q)) = n
           \<and> le_value (take 2 (drop 6 q)) = p
           \<and> le_value (take 2 (drop 8 q)) = port s))"
proof (intro conjI impI allI)
  assume "number s = Some 12345678 \<and> tns_pin s = Some 4321 \<and> port s = 2342"
  then show "client_update_packet s =
      Inr [0x01, 0x08, 0x4E, 0x61, 0xBC, 0x00, 0xE1, 0x10, 0x26, 0x09]"
    by (simp add: client_update_packet_def to_bytes_def numeral_eq_Suc)
next
  fix n p
  assume a: "number s = Some n \<and> 0 \<le> n \<and> n < 2 ^ 32 \<and> tns_pin s = Some p \<and> 0 \<le> p \<and> p < 2 ^ 16
          \<and> 0 \<le> port s \<and> port s < 2 ^ 16"
  let ?q = "[0x01, 0x08] @ le_bytes 4 n @ le_bytes 2 p @ le_bytes 2 (port s)"
  have q: "client_update_packet s = Inr ?q"
    using a by (intro client_update_packet_Inr) auto
  have n: "le_value (le_bytes 4 n) = n"
    using a by (intro le_value_le_bytes) auto
  have p: "le_value (le_bytes 2 p) = p"
    using a by (intro le_value_le_bytes) auto
  have r: "le_value (le_bytes 2 (port s)) = port s"
    using a by (intro le_value_le_bytes) auto
  have "length ?q = 10"
    by (simp add: length_le_bytes)
  moreover have "?q ! 0 = 0x01" "?q ! 1 = 0x08"
    by simp_all
  moreover have "take 4 (drop 2 ?q) = le_bytes 4 n"
    by (simp add: length_le_bytes)
  moreover have "take 2 (drop 6 ?q) = le_bytes 2 p"
    by (simp add: length_le_bytes)
  moreover have "take 2 (drop 8 ?q) = le_bytes 2 (port s)"
    by (simp add: length_le_bytes)
  ultimately show "\<exists>q. client_update_packet s = Inr q \<and> length q = 10 \<and> q ! 0 = 0x01
           \<and> q ! 1 = 0x08
           \<and> le_value (take 4 (drop 2 q)) = n
           \<and> le_value (take 2 (drop 6 q)) = p
           \<and> le_value (take 2 (drop 8 q)) = port s"
    using q n p r by metis
qed

theorem client_update_packet_format_witness:
  "number srv0 = Some 12345678 \<and> tns_pin srv0 = Some 4321 \<and> port srv0 = 2342
   \<and> client_update_packet srv0 = Inr [0x01, 0x08, 0x4E, 0x61, 0xBC, 0x00, 0xE1, 0x10, 0x26, 0x09]
   \<and> le_value (take 4 (drop 2 [0x01, 0x08, 0x4E, 0x61, 0xBC, 0x00, 0xE1, 0x10, 0x26, 0x09]))
       = 12345678
   \<and> le_value (take 2 (drop 6 [0x01, 0x08, 0x4E, 0x61, 0xBC, 0x00, 0xE1, 0x10, 0x26, 0x09]))
       = 4321
   \<and> le_value (take 2 (drop 8 [0x01, 0x08, 0x4E, 0x61, 0xBC, 0x00, 0xE1, 0x10, 0x26, 0x09]))
       = 2342"
  using client_update_packet_format [of srv0] by (simp add: srv0_def)

subsection \<open>The answer of the TNS server\<close>

lemma address_confirm_example:
  "address_confirm [0x02, 0x04, 0x01, 0x02, 0x03, 0x04] = Inr ''1.2.3.4''"
  by code_simp

lemma address_confirm_Inr:
  assumes "address_confirm data = Inr ip"
  shows "\<exists>rest. data = 0x02 # 0x04 # rest"
proof (cases data)
  case Nil
  with assms show ?thesis
    by (simp add: address_confirm_def byte_at_def)
next
  case (Cons b0 r)
  with assms show ?thesis
    by (cases r) (simp_all add: address_confirm_def byte_at_def split: if_splits)
qed

lemma update_tns_record_rejects:
  assumes "\<not> (\<exists>rest. data = 0x02 # 0x04 # rest)"
  shows "update_tns_record (Inr data) s = (False, s)"
proof (cases "address_confirm data")
  case (Inl e)
  then show ?thesis
    by (simp add: update_tns_record_def update_tns_record_try_def split: sum.splits)
next
  case (Inr ip)
  with assms address_confirm_Inr show ?thesis
    by blast
qed

text \<open>
  C6. When the request can be built, the answer 02 04 01 02 03 04 makes
  \<open>update_tns_record\<close> store the address "1.2.3.4" and return \<open>True\<close>. An answer that
  starts with 02 and goes on with a byte other than 04, an answer that starts with a byte
  other than 02, an answer too short to hold these bytes, and an exception of the socket
  (refused connection, timeout) all make it return \<open>False\<close> with the object as it was:
  the function has a result in every case, no exception leaves it.
\<close>

theorem update_tns_record_outcomes:
  "(\<forall>q. client_update_packet s = Inr q \<longrightarrow>
      update_tns_record (Inr [0x02, 0x04, 0x01, 0x02, 0x03, 0x04]) s
        = (True, s\<lparr>ip_address := Some ''1.2.3.4''\<rparr>))
   \<and> (\<forall>b1 rest. b1 \<noteq> 0x04 \<longrightarrow> update_tns_record (Inr (0x02 # b1 # rest)) s = (False, s))
   \<and> (\<forall>b0 rest. b0 \<noteq> 0x02 \<longrightarrow> update_tns_record (Inr (b0 # rest)) s = (False, s))
   \<and> update_tns_record (Inr [0x02]) s = (False, s)
   \<and> update_tns_record (Inr []) s = (False, s)
   \<and> (\<forall>e. update_tns_record (Inl e) s = (False, s))"
proof -
  have "\<forall>q. client_update_packet s = Inr q \<longrightarrow>
      update_tns_record (Inr [0x02, 0x04, 0x01, 0x02, 0x03, 0x04]) s
        = (True, s\<lparr>ip_address := Some ''1.2.3.4''\<rparr>)"
    by (simp add: update_tns_record_def update_tns_record_try_def address_confirm_example)
  moreover have "\<forall>b1 rest. b1 \<noteq> 0x04 \<longrightarrow>
      update_tns_record (Inr (0x02 # b1 # rest)) s = (False, s)"
    by (simp add: update_tns_record_rejects)
  moreover have "\<forall>b0 rest. b0 \<noteq> 0x02 \<longrightarrow>
      update_tns_record (Inr (b0 # rest)) s = (False, s)"
    by (simp add: update_tns_record_rejects)
  moreover have "update_tns_record (Inr [0x02]) s = (False, s)"
    and "update_tns_record (Inr []) s = (False, s)"
    by (simp_all add: update_tns_record_rejects)
  moreover have "\<forall>e. update_tns_record (Inl e) s = (False, s)"
    by (simp add: update_tns_record_def update_tns_record_try_def split: sum.splits)
  ultimately show ?thesis
    by blast
qed

theorem update_tns_record_outcomes_witness:
  "client_update_packet srv0 = Inr [0x01, 0x08, 0x4E, 0x61, 0xBC, 0x00, 0xE1, 0x10, 0x26, 0x09]
   \<and> update_tns_record (Inr [0x02, 0x04, 0x01, 0x02, 0x03, 0x04]) srv0
        = (True, srv0\<lparr>ip_address := Some ''1.2.3.4''\<rparr>)
   \<and> (0x05 :: byte) \<noteq> 0x04
   \<and> update_tns_record (Inr [0x02, 0x05, 0x01, 0x02, 0x03, 0x04]) srv0 = (False, srv0)
   \<and> (0x03 :: byte) \<noteq> 0x02
   \<and> update_tns_record (Inr [0x03, 0x04, 0x01, 0x02, 0x03, 0x04]) srv0 = (False, srv0)"
proof -
  have q: "client_update_packet srv0
      = Inr [0x01, 0x08, 0x4E, 0x61, 0xBC, 0x00, 0xE1, 0x10, 0x26, 0x09]"
    by (simp add: client_update_packet_def to_bytes_def numeral_eq_Suc srv0_def)
  show ?thesis
    using update_tns_record_outcomes [of srv0] q by simp
qed

subsection \<open>Connections from the own address\<close>

text \<open>
  C2. A connection accepted from the address that the object knows as its own, whose
  \<open>recv(128)\<close> gives exactly the six bytes of \<open>selftest_packet\<close>, sets the self-test
  event once and is closed; the registry of clients is as before and no handler thread
  is started for it.
\<close>

theorem selftest_probe_muted:
  assumes "Some (fst (peer c)) = ip_address s" and "recv 128 c = Some (Inr selftest_packet)"
  shows "accept_connection c s
           = ([SetSelftestEvent, Close (sock_id c)], s\<lparr>selftest_event := True\<rparr>)
    \<and> count_list (fst (accept_connection c s)) SetSelftestEvent = 1
    \<and> clients (snd (accept_connection c s)) = clients s
    \<and> StartHandler (sock_id c) \<notin> set (fst (accept_connection c s))"
  using assms by (simp add: accept_connection_def)

theorem selftest_probe_muted_witness:
  "Some (fst (peer probe_conn)) = ip_address srv_known
   \<and> recv 128 probe_conn = Some (Inr selftest_packet)
   \<and> accept_connection probe_conn srv_known
       = ([SetSelftestEvent, Close 7], srv_known\<lparr>selftest_event := True\<rparr>)"
  using selftest_probe_muted [of probe_conn srv_known]
  by (simp add: probe_conn_def srv_known_def srv0_def recv_def selftest_packet_def)

text \<open>
  When the \<open>recv\<close> of line 109 returns, whatever the bytes, a connection from the own
  address is closed and nothing else is done with its socket: no reject is sent, no
  handler is started, the registry and the tx buffer are as before. Only the setting of
  the self-test event depends on the bytes.
\<close>

lemma own_address_closed_after_recv:
  assumes "Some (fst (peer c)) = ip_address s" and "recv 128 c = Some (Inr data)"
  shows "fst (accept_connection c s)
           = (if data = selftest_packet then [SetSelftestEvent] else []) @ [Close (sock_id c)]
    \<and> clients (snd (accept_connection c s)) = clients s
    \<and> tx_buffer (snd (accept_connection c s)) = tx_buffer s
    \<and> acceptor (snd (accept_connection c s)) = acceptor s"
  using assms by (simp add: accept_connection_def)

text \<open>
  C10 fails when the \<open>recv\<close> of line 109 raises. The connection \<open>reset_conn\<close> comes from
  the own address and is reset by its peer: the exception leaves the loop of lines 105
  to 122, where nothing catches it, so the socket is not closed and the acceptor thread
  has ended; the caller \<open>call1\<close> that comes next is not accepted any more.
\<close>

theorem own_address_recv_raises:
  "Some (fst (peer reset_conn)) = ip_address srv_known
   \<and> step (Accept reset_conn) srv_known = ([Raised OSError], srv_known\<lparr>acceptor := Ended\<rparr>)
   \<and> Close (sock_id reset_conn) \<notin> set (fst (step (Accept reset_conn) srv_known))
   \<and> exec [Accept reset_conn, Accept call1] srv_known
       = ([Raised OSError], srv_known\<lparr>acceptor := Ended\<rparr>)"
  by code_simp

subsection \<open>Invariants of an execution\<close>

lemma exec_invariant:
  assumes "P s" and "\<And>ev s. P s \<Longrightarrow> P (snd (step ev s))"
  shows "P (snd (exec evs s))"
  using assms(1)
proof (induction evs arbitrary: s)
  case Nil
  then show ?case by simp
next
  case (Cons ev evs)
  have "P (snd (step ev s))"
    using Cons.prems by (rule assms(2))
  then have "P (snd (exec evs (snd (step ev s))))"
    by (rule Cons.IH)
  then show ?case
    by (simp add: split_beta)
qed

lemma update_tns_record_fields:
  "run (snd (update_tns_record r s)) = run s"
  "pc (snd (update_tns_record r s)) = pc s"
  "test_connection_fail (snd (update_tns_record r s)) = test_connection_fail s"
  "clients (snd (update_tns_record r s)) = clients s"
  by (simp_all add: update_tns_record_def update_tns_record_try_def split: sum.splits)

lemma test_connection_fields:
  "run (snd (test_connection r s)) = run s"
  "pc (snd (test_connection r s)) = pc s"
  "test_connection_fail (snd (test_connection r s)) = test_connection_fail s"
  "clients (snd (test_connection r s)) = clients s"
  by (simp_all add: test_connection_def split: probe_result.splits)

lemma handler_leave_clients:
  "length (clients (snd (handler_leave k s))) \<le> length (clients s)"
  by (simp add: handler_leave_def AList.delete_eq)

lemma step_clients:
  assumes "length (clients s) \<le> 1"
  shows "length (clients (snd (step ev s))) \<le> 1"
proof (cases ev)
  case (Accept c)
  with assms show ?thesis
    by (auto simp add: accept_connection_def split: option.splits sum.splits)
next
  case (Handler k r)
  have "length (clients (snd (handler_leave k s'))) \<le> length (clients s')" for s'
    by (rule handler_leave_clients)
  from this [of s] this [of "s\<lparr>end_signalled := True\<rparr>"] assms Handler show ?thesis
    by (simp add: handler_relay_def disconnect_client_def split_beta
          split: sum.splits)
next
  case (Tick n)
  with assms show ?thesis
    by (cases "pc s")
      (simp_all add: thread_handle_tns_update_def tns_update_phase_def selftest_iteration_def
        split_beta Let_def update_tns_record_fields test_connection_fields)
qed (use assms in \<open>simp_all add: handler_enter_def relay_start_def write_srv_def exit_def
       accept_raises_def disconnect_client_def split_beta\<close>)

lemma run_to_busy: "snd (exec [Tick unconfirmed_net, Accept call1] srv0) = busy_srv"
  by code_simp

text \<open>
  C1, as stated, fails for a connection that is not a probe but comes from the object's
  own address. \<open>busy_srv\<close>, reached from \<open>srv0\<close> by one TNS update and one admitted
  call, has a session registered; the connection \<open>stray_conn\<close> comes from the own
  address with three bytes that are not the self-test packet. It is closed, and no reject
  is sent to it: lines 108 to 114 deal with every connection from the own address before
  the registry is looked at.
\<close>

theorem own_address_not_rejected:
  "snd (exec [Tick unconfirmed_net, Accept call1] srv0) = busy_srv
   \<and> clients busy_srv = [(1, (''10.0.0.1'', 40000))]
   \<and> recv 128 stray_conn \<noteq> Some (Inr selftest_packet)
   \<and> accept_connection stray_conn busy_srv = ([Close 8], busy_srv)
   \<and> SendReject 8 \<notin> set (fst (accept_connection stray_conn busy_srv))"
proof -
  have "accept_connection stray_conn busy_srv = ([Close 8], busy_srv)"
    by code_simp
  moreover have "recv 128 stray_conn \<noteq> Some (Inr selftest_packet)"
    by (simp add: recv_def stray_conn_def selftest_packet_def)
  moreover have "clients busy_srv = [(1, (''10.0.0.1'', 40000))]"
    by (simp add: busy_srv_def)
  ultimately show ?thesis
    using run_to_busy by simp
qed

text \<open>
  C1, amended. In every execution of a constructed object (any sequence of accepted
  connections, steps of handlers, writes, exits and steps of the TNS thread) the registry of
  clients holds at most one session. While it holds one, every further accepted
  connection whose peer address differs from the object's own known address is sent the
  reject and closed, and the object, with the registered session, is as before; the two
  effects are on the new socket only.
\<close>

theorem single_active_session:
  assumes "init p base = Inr (effs0, s0)"
  shows "length (clients (snd (exec evs s0))) \<le> 1
    \<and> (\<forall>c. clients (snd (exec evs s0)) \<noteq> []
            \<and> Some (fst (peer c)) \<noteq> ip_address (snd (exec evs s0)) \<longrightarrow>
          accept_connection c (snd (exec evs s0))
            = ([SendReject (sock_id c), Close (sock_id c)], snd (exec evs s0)))"
proof -
  have "clients s0 = []"
    using assms by (auto simp add: init_def Let_def split: option.splits if_splits)
  then have "length (clients s0) \<le> 1"
    by simp
  then have "length (clients (snd (exec evs s0))) \<le> 1"
    by (rule exec_invariant [where P = "\<lambda>s. length (clients s) \<le> 1"]) (rule step_clients)
  then show ?thesis
    by (simp add: accept_connection_def)
qed

lemma first_call_admitted:
  "exec [Accept call1] srv0
     = ([StartHandler 1], srv0\<lparr>clients := [(1, (''10.0.0.1'', 40000))]\<rparr>)"
  by code_simp

theorem single_active_session_witness:
  "init demo_params base0
     = Inr ([Listen 2342, StartThread ''iTelexSaic'', StartThread ''iTelexTNSupd''], srv0)
   \<and> clients (snd (exec [Accept call1] srv0)) = [(1, (''10.0.0.1'', 40000))]
   \<and> Some (fst (peer call2)) \<noteq> ip_address (snd (exec [Accept call1] srv0))
   \<and> accept_connection call2 (snd (exec [Accept call1] srv0))
       = ([SendReject 2, Close 2], snd (exec [Accept call1] srv0))"
proof -
  have e: "snd (exec [Accept call1] srv0) = srv0\<lparr>clients := [(1, (''10.0.0.1'', 40000))]\<rparr>"
    by (simp only: first_call_admitted snd_conv)
  show ?thesis
    using single_active_session [OF init_demo, of "[Accept call1]"] init_demo
    unfolding e by (simp add: call2_def srv0_def)
qed

subsection \<open>\<open>write\<close>\<close>






subsection \<open>Construction and exit\<close>

text \<open>
  With an integer pin and a port in 0..65535, a number or a pin out of range leaves the
  TNS thread unstarted:
  the listening socket is open, the acceptor thread is the only thread started, and a
  step of the TNS thread does nothing.
\<close>

lemma init_registration_disabled:
  assumes "tns_pin_param p = Some pin"
    and "n = (case number_param p of None \<Rightarrow> 0 | Some v \<Rightarrow> v)"
    and "n < 1 \<or> 0xffffffff < n \<or> pin < 0 \<or> 0xffff < pin"
    and "prt = (case port_param p of None \<Rightarrow> 2342 | Some v \<Rightarrow> v)"
    and "0 \<le> prt" and "prt \<le> 65535"
  shows "\<exists>s. init p base = Inr ([Listen prt, StartThread ''iTelexSaic''], s)
     \<and> pc s = NotStarted \<and> number s = None \<and> run s \<and> server_open s
     \<and> acceptor s = Accepting
     \<and> (\<forall>m. thread_handle_tns_update m s = ([], s))"
  using assms
  by (auto simp add: init_def Let_def truthy_int_def thread_handle_tns_update_def)

text \<open>
  C8 holds for an integer pin (lemma \<open>init_registration_disabled\<close>), and fails for the
  construction without \<open>number\<close> and without \<open>tns-pin\<close>: the number is the default 0,
  outside 1..0xffffffff, the pin is the default \<open>None\<close>, and \<open>__init__\<close> ends with the
  TypeError of line 45 before the listening socket is made and before the acceptor
  thread is started.
\<close>

theorem init_without_pin_raises: "init no_params base0 = Inl TypeError"
  by (simp add: init_def no_params_def)

lemma exit_fields:
  "run (snd (exit s)) = run s"
  "\<not> underscore_run (snd (exit s))"
  "\<not> server_open (snd (exit s))"
  "fst (exit s) = [DisconnectClient, CloseServer]"
  by (simp_all add: exit_def disconnect_client_def)

text \<open>
  C7 fails on the running flag. \<open>exit\<close> disconnects the client and closes the listening
  socket, but it clears \<open>self._run\<close>, and the two loops test \<open>self.run\<close>: after \<open>exit\<close>
  on the object \<open>srv0\<close> the flag \<open>run\<close> is still set, and the TNS thread goes on to
  register and to probe.
\<close>

theorem exit_leaves_run_set:
  "run (snd (exec [Exit] srv0))
   \<and> \<not> underscore_run (snd (exec [Exit] srv0))
   \<and> fst (exec [Exit, Tick unconfirmed_net, Tick unconfirmed_net] srv0)
       = [DisconnectClient, CloseServer, Register True, Sleep 20, Probe False]
   \<and> pc (snd (exec [Exit, Tick unconfirmed_net, Tick unconfirmed_net] srv0)) = SelfTest 1"
  by code_simp

subsection \<open>The self-test schedule\<close>

lemma tick_sched_inv: "sched_inv s \<Longrightarrow> sched_inv (snd (thread_handle_tns_update n s))"
  by (cases "pc s")
    (auto simp add: sched_inv_def thread_handle_tns_update_def tns_update_phase_def
      selftest_iteration_def next_iteration_def split_beta Let_def update_tns_record_fields
      test_connection_fields)

lemma accept_connection_sched:
  "run (snd (accept_connection c s)) = run s"
  "pc (snd (accept_connection c s)) = pc s"
  "test_connection_fail (snd (accept_connection c s)) = test_connection_fail s"
  by (simp_all add: accept_connection_def split: option.splits sum.splits)

lemma handler_sched:
  "run (snd (handler_enter k s)) = run s"
  "pc (snd (handler_enter k s)) = pc s"
  "test_connection_fail (snd (handler_enter k s)) = test_connection_fail s"
  "run (snd (handler_relay k r s)) = run s"
  "pc (snd (handler_relay k r s)) = pc s"
  "test_connection_fail (snd (handler_relay k r s)) = test_connection_fail s"
  by (simp_all add: handler_enter_def relay_start_def handler_relay_def handler_leave_def
        disconnect_client_def split_beta split: sum.splits)

lemma write_exit_sched:
  "run (snd (write_srv a source s)) = run s"
  "pc (snd (write_srv a source s)) = pc s"
  "test_connection_fail (snd (write_srv a source s)) = test_connection_fail s"
  "pc (snd (exit s)) = pc s"
  "test_connection_fail (snd (exit s)) = test_connection_fail s"
  "run (snd (accept_raises s)) = run s"
  "pc (snd (accept_raises s)) = pc s"
  "test_connection_fail (snd (accept_raises s)) = test_connection_fail s"
  by (simp_all add: write_srv_def exit_def accept_raises_def disconnect_client_def)

text \<open>Only the TNS thread touches its counter and its place, and only it registers and probes.\<close>

lemma other_step_sched:
  assumes "\<forall>n. ev \<noteq> Tick n"
  shows "run (snd (step ev s)) = run s \<and> pc (snd (step ev s)) = pc s
    \<and> test_connection_fail (snd (step ev s)) = test_connection_fail s"
  using assms
  by (cases ev)
    (auto simp add: accept_connection_sched handler_sched write_exit_sched exit_fields)


lemma step_sched_inv:
  assumes "sched_inv s"
  shows "sched_inv (snd (step ev s))"
proof (cases "\<exists>n. ev = Tick n")
  case True
  with assms show ?thesis
    by (auto simp add: tick_sched_inv)
next
  case False
  with assms other_step_sched [of ev s] show ?thesis
    by (auto simp add: sched_inv_def split: tns_pc.splits)
qed

lemma init_sched_inv: "init p base = Inr (effs, s) \<Longrightarrow> sched_inv s"
  by (auto simp add: init_def sched_inv_def Let_def split: option.splits if_splits)

lemma reachable_sched_inv:
  "init p base = Inr (effs0, s0) \<Longrightarrow> sched_inv (snd (exec evs s0))"
  by (rule exec_invariant [where P = sched_inv]) (auto intro: init_sched_inv step_sched_inv)

text \<open>No event ever clears \<open>self.run\<close>: the loop of the TNS thread does not return.\<close>

lemma tick_not_returned:
  assumes "run s" and "pc s \<noteq> Returned"
  shows "pc (snd (thread_handle_tns_update n s)) \<noteq> Returned"
  using assms
  by (cases "pc s")
    (simp_all add: thread_handle_tns_update_def tns_update_phase_def selftest_iteration_def
      next_iteration_def split_beta Let_def update_tns_record_fields test_connection_fields)

lemma step_not_returned:
  assumes "sched_inv s \<and> pc s \<noteq> Returned"
  shows "sched_inv (snd (step ev s)) \<and> pc (snd (step ev s)) \<noteq> Returned"
proof -
  have inv: "sched_inv (snd (step ev s))"
    using assms by (simp add: step_sched_inv)
  have "pc (snd (step ev s)) \<noteq> Returned"
  proof (cases "\<exists>n. ev = Tick n")
    case True
    then obtain n where ev: "ev = Tick n" ..
    have "run s"
      using assms by (simp add: sched_inv_def)
    then have "pc (snd (thread_handle_tns_update n s)) \<noteq> Returned"
      using assms by (simp add: tick_not_returned)
    then show ?thesis
      by (simp add: ev)
  next
    case False
    with assms other_step_sched [of ev s] show ?thesis
      by simp
  qed
  with inv show ?thesis
    by simp
qed

lemma run_never_cleared:
  assumes "init p base = Inr (effs0, s0)"
  shows "run (snd (exec evs s0)) \<and> pc (snd (exec evs s0)) \<noteq> Returned"
proof -
  have "pc s0 \<noteq> Returned"
    using assms by (auto simp add: init_def Let_def split: option.splits if_splits)
  with assms have "sched_inv s0 \<and> pc s0 \<noteq> Returned"
    by (simp add: init_sched_inv)
  then have "sched_inv (snd (exec evs s0)) \<and> pc (snd (exec evs s0)) \<noteq> Returned"
    by (rule exec_invariant [where P = "\<lambda>s. sched_inv s \<and> pc s \<noteq> Returned"])
      (rule step_not_returned)
  then show ?thesis
    by (simp add: sched_inv_def)
qed




lemma break_at_six:
  assumes "Probe b \<in> set (fst (thread_handle_tns_update n s))"
    and "test_connection_fail (snd (thread_handle_tns_update n s)) = 6"
  shows "pc (snd (thread_handle_tns_update n s)) = TnsUpdate"
  using assms
  by (cases "pc s")
    (auto simp add: thread_handle_tns_update_def tns_update_phase_def selftest_iteration_def
      split_beta Let_def split: if_splits)

lemma registration_first:
  assumes "pc s = TnsUpdate" and "run s"
  shows "\<exists>ok. hd (fst (thread_handle_tns_update n s)) = Register ok
     \<and> (\<forall>b. Probe b \<notin> set (fst (thread_handle_tns_update n s)))"
  using assms
  by (simp add: thread_handle_tns_update_def tns_update_phase_def split_beta Let_def)

text \<open>The states that \<open>srv0\<close> reaches on the network \<open>unconfirmed_net\<close>.\<close>

lemma run_to_five: "snd (exec (replicate 6 (Tick unconfirmed_net)) srv0) = five_srv"
  by code_simp



lemma tick_five:
  "step (Tick unconfirmed_net) five_srv
     = ([Sleep 20, Probe False], five_srv\<lparr>test_connection_fail := 6, pc := TnsUpdate\<rparr>)"
  by code_simp

lemma tick_six:
  "step (Tick unconfirmed_net) (five_srv\<lparr>test_connection_fail := 6, pc := TnsUpdate\<rparr>)
     = ([Register True], five_srv\<lparr>test_connection_fail := 6, pc := SelfTest 0\<rparr>)"
  by code_simp







text \<open>
  C4. In every execution of a constructed object, when a step of the \<open>for\<close> loop probes
  and leaves the counter of failed self-tests at exactly 6, the thread is back at the
  head of the outer loop whatever the iteration \<open>i\<close> was: its next step starts with a
  registration and issues no probe.
\<close>

theorem early_registration_after_six:
  assumes "init p base = Inr (effs0, s0)"
    and "pc (snd (exec evs s0)) = SelfTest i"
    and "Probe b \<in> set (fst (step (Tick n) (snd (exec evs s0))))"
    and "test_connection_fail (snd (step (Tick n) (snd (exec evs s0)))) = 6"
  shows "pc (snd (step (Tick n) (snd (exec evs s0)))) = TnsUpdate
    \<and> (\<forall>m. \<exists>ok.
          hd (fst (step (Tick m) (snd (step (Tick n) (snd (exec evs s0)))))) = Register ok
          \<and> (\<forall>b'. Probe b'
                 \<notin> set (fst (step (Tick m) (snd (step (Tick n) (snd (exec evs s0))))))))"
proof -
  let ?s = "snd (exec evs s0)"
  let ?s' = "snd (thread_handle_tns_update n ?s)"
  have "sched_inv ?s"
    using assms(1) by (rule reachable_sched_inv)
  then have "sched_inv ?s'"
    by (rule tick_sched_inv)
  then have run: "run ?s'"
    by (simp add: sched_inv_def)
  have pc: "pc ?s' = TnsUpdate"
    using assms(3,4) by (simp add: break_at_six)
  show ?thesis
    using registration_first [OF pc run] pc by simp
qed

theorem early_registration_after_six_witness:
  "init demo_params base0
     = Inr ([Listen 2342, StartThread ''iTelexSaic'', StartThread ''iTelexTNSupd''], srv0)
   \<and> snd (exec (replicate 6 (Tick unconfirmed_net)) srv0) = five_srv
   \<and> pc five_srv = SelfTest 5
   \<and> Probe False \<in> set (fst (step (Tick unconfirmed_net) five_srv))
   \<and> test_connection_fail (snd (step (Tick unconfirmed_net) five_srv)) = 6
   \<and> pc (snd (step (Tick unconfirmed_net) five_srv)) = TnsUpdate
   \<and> hd (fst (step (Tick unconfirmed_net) (snd (step (Tick unconfirmed_net) five_srv))))
       = Register True"
proof -
  have a: "pc five_srv = SelfTest 5"
    by (simp add: five_srv_def)
  have b: "Probe False \<in> set (fst (step (Tick unconfirmed_net) five_srv))"
    by (simp only: tick_five fst_conv) simp
  have c: "test_connection_fail (snd (step (Tick unconfirmed_net) five_srv)) = 6"
    by (simp only: tick_five snd_conv) simp
  have d: "hd (fst (step (Tick unconfirmed_net) (snd (step (Tick unconfirmed_net) five_srv))))
       = Register True"
    by (simp only: tick_five tick_six snd_conv fst_conv) simp
  show ?thesis
    using early_registration_after_six [OF init_demo,
        of "replicate 6 (Tick unconfirmed_net)" 5 False unconfirmed_net]
      init_demo a b c d
    unfolding run_to_five by simp
qed

end
